theory Spec2Isabelle
  imports Complex_Main
begin

section \<open>The Junk Accumulation Model of \<open>jam_app.py\<close>\<close>

text \<open>
  The script integrates a three-compartment model of orbital debris (intact objects
  \<open>S\<close>, fragments \<open>I\<close>, removed objects \<open>R\<close>) and derives the effective reproduction
  number from the \<open>S\<close> trajectory.

  Python floats are modelled as exact reals: rounding and overflow are outside the
  model. The one place where the floating-point result is not a real number, a numpy
  division by zero, is modelled with explicit non-finite values.
\<close>

subsection \<open>Errors\<close>

text \<open>
  \<open>ValueError\<close> is what Python raises when a sequence is unpacked into the wrong number
  of names, \<open>ZeroDivisionError\<close> what a division of Python floats by zero raises.
\<close>

datatype error = ValueError | ZeroDivisionError

subsection \<open>The vector field\<close>

text \<open>
  \<^verbatim>\<open>
  def jam_model(t, y, L, b, th, g, mu_S, mu_I):
      S, I, R = y
      dSdt = L - b * S * I - mu_S * S
      dIdt = (1 + th) * b * S * I - (g + mu_I) * I
      dRdt = g * I + mu_S * S + mu_I * I
      return [dSdt, dIdt, dRdt]
  \<close>
  The state \<open>y\<close> is a sequence; unpacking it into three names raises unless it has
  exactly three elements.
\<close>

definition jam_model ::
  "real \<Rightarrow> real list \<Rightarrow> real \<Rightarrow> real \<Rightarrow> real \<Rightarrow> real \<Rightarrow> real \<Rightarrow> real \<Rightarrow> error + real list" where
  "jam_model t y \<Lambda> \<beta> \<theta> \<gamma> \<mu>_S \<mu>_I =
     (case y of
        [S, I, R] \<Rightarrow>
          (let dSdt = \<Lambda> - \<beta> * S * I - \<mu>_S * S;
               dIdt = (1 + \<theta>) * \<beta> * S * I - (\<gamma> + \<mu>_I) * I;
               dRdt = \<gamma> * I + \<mu>_S * S + \<mu>_I * I
           in Inr [dSdt, dIdt, dRdt])
      | _ \<Rightarrow> Inl ValueError)"

subsection \<open>Arrays and the floating-point quotient\<close>

text \<open>
  \<open>sol.y\<close> is a two-dimensional numpy array: \<open>shape0\<close> rows (one per state
  component), \<open>shape1\<close> columns (one per sample time reported by the solver), and an
  element at every position inside the shape. Iterating over it yields its rows, so
  \<open>S, I, R = sol.y\<close> raises unless it has exactly three rows.
\<close>

record ndarray =
  shape0 :: nat
  shape1 :: nat
  item :: "nat \<Rightarrow> nat \<Rightarrow> real"

definition row :: "ndarray \<Rightarrow> nat \<Rightarrow> real list" where
  "row a i = map (item a i) [0..<shape1 a]"

definition column :: "ndarray \<Rightarrow> nat \<Rightarrow> real list" where
  "column a j = map (\<lambda>i. item a i j) [0..<shape0 a]"

definition unpack3 :: "ndarray \<Rightarrow> error + (real list \<times> real list \<times> real list)" where
  "unpack3 a = (if shape0 a = 3 then Inr (row a 0, row a 1, row a 2) else Inl ValueError)"

text \<open>
  Dividing a numpy array by a Python float never raises: where the divisor is zero the
  IEEE quotient is an infinity with the sign of the dividend, or NaN for \<open>0 / 0\<close>
  (numpy only emits a warning). A zero divisor is taken to be \<open>+0.0\<close>.
\<close>

datatype fval = Finite real | PosInf | NegInf | NaN

definition np_divide :: "real \<Rightarrow> real \<Rightarrow> fval" where
  "np_divide x d =
     (if d = 0 then (if 0 < x then PosInf else if x < 0 then NegInf else NaN)
      else Finite (x / d))"

fun isfinite :: "fval \<Rightarrow> bool" where
  "isfinite (Finite r) = True"
| "isfinite PosInf = False"
| "isfinite NegInf = False"
| "isfinite NaN = False"

text \<open>Comparison with a finite number; every comparison with NaN is false.\<close>

fun fval_greater :: "fval \<Rightarrow> real \<Rightarrow> bool" where
  "fval_greater (Finite r) c = (c < r)"
| "fval_greater PosInf c = True"
| "fval_greater NegInf c = False"
| "fval_greater NaN c = False"

fun fval_less :: "fval \<Rightarrow> real \<Rightarrow> bool" where
  "fval_less (Finite r) c = (r < c)"
| "fval_less PosInf c = False"
| "fval_less NegInf c = True"
| "fval_less NaN c = False"

subsection \<open>The sample times\<close>

text \<open>
  \<open>np.linspace(start, stop, num)\<close> with the default \<open>endpoint=True\<close>, following numpy's
  implementation: the indices \<open>0 .. num - 1\<close> are scaled by \<open>step = (stop - start) / (num - 1)\<close>
  (by \<open>/ (num - 1) * delta\<close> when the step is zero, by \<open>delta\<close> when \<open>num \<le> 1\<close>), shifted by
  \<open>start\<close>, and the last element is overwritten with \<open>stop\<close> when \<open>num > 1\<close>.
\<close>

definition linspace :: "real \<Rightarrow> real \<Rightarrow> nat \<Rightarrow> real list" where
  "linspace start stop num =
     (let divisor = num - 1;
          delta = stop - start;
          y = map real [0..<num];
          y = (if 0 < divisor then
                 (let step = delta / real divisor
                  in if step = 0 then map (\<lambda>v. v / real divisor * delta) y
                     else map (\<lambda>v. v * step) y)
               else map (\<lambda>v. v * delta) y);
          y = map (\<lambda>v. v + start) y
      in if 1 < num then y[num - 1 := stop] else y)"

subsection \<open>The simulation runner\<close>

text \<open>
  \<open>scipy.integrate.solve_ivp\<close> is an external library function and is a parameter of
  the model: it receives the vector field, the time span, the initial state and the
  requested sample times, and either raises or returns the array \<open>sol.y\<close>.
\<close>

type_synonym ode_solver =
  "(real \<Rightarrow> real list \<Rightarrow> error + real list) \<Rightarrow> real \<times> real \<Rightarrow> real list \<Rightarrow> real list
     \<Rightarrow> error + ndarray"

text \<open>
  Line 64 of the script, \<open>Rt = ((1 + th) * b * S) / (g + mu_I)\<close>, is an array
  expression: a scalar times the array \<open>S\<close>, divided elementwise by a scalar.
\<close>

definition Rt_elem :: "real \<Rightarrow> real \<Rightarrow> real \<Rightarrow> real \<Rightarrow> real \<Rightarrow> fval" where
  "Rt_elem \<theta> \<beta> \<gamma> \<mu>_I s = np_divide ((1 + \<theta>) * \<beta> * s) (\<gamma> + \<mu>_I)"

text \<open>
  \<^verbatim>\<open>
  def run_simulation(y0, L, b, th, g, mu_S, mu_I, T):
      t_span = (0, T)
      t_eval = np.linspace(0, T, 1000)
      sol = solve_ivp(jam_model, t_span, y0, args=(L, b, th, g, mu_S, mu_I), t_eval=t_eval)
      S, I, R = sol.y
      Rt = ((1 + th) * b * S) / (g + mu_I)
      return t_eval, S, I, R, Rt
  \<close>
\<close>

definition run_simulation ::
  "ode_solver \<Rightarrow> real list \<Rightarrow> real \<Rightarrow> real \<Rightarrow> real \<Rightarrow> real \<Rightarrow> real \<Rightarrow> real \<Rightarrow> real
     \<Rightarrow> error + (real list \<times> real list \<times> real list \<times> real list \<times> fval list)" where
  "run_simulation solve_ivp y0 \<Lambda> \<beta> \<theta> \<gamma> \<mu>_S \<mu>_I T =
     (let t_span = (0, T);
          t_eval = linspace 0 T 1000
      in case solve_ivp (\<lambda>t y. jam_model t y \<Lambda> \<beta> \<theta> \<gamma> \<mu>_S \<mu>_I) t_span y0 t_eval of
           Inl e \<Rightarrow> Inl e
         | Inr sol_y \<Rightarrow>
             (case unpack3 sol_y of
                Inl e \<Rightarrow> Inl e
              | Inr (S, I, R) \<Rightarrow>
                  (let Rt = map (Rt_elem \<theta> \<beta> \<gamma> \<mu>_I) S
                   in Inr (t_eval, S, I, R, Rt))))"

text \<open>The lengths of the five returned sequences, in the order they are returned.\<close>

definition series_lengths ::
  "real list \<times> real list \<times> real list \<times> real list \<times> fval list \<Rightarrow> nat \<times> nat \<times> nat \<times> nat \<times> nat" where
  "series_lengths r =
     (case r of (t, S, I, R, Rt) \<Rightarrow> (length t, length S, length I, length R, length Rt))"

text \<open>
  A stand-in for the external solver, used to run the model on concrete inputs: it
  reports the initial state unchanged at the first \<open>n\<close> requested sample times and
  stops there, as an integrator does that gives up before the end of the time span.
\<close>

definition stalled_solver :: "nat \<Rightarrow> ode_solver" where
  "stalled_solver n f t_span y0 t_eval =
     Inr \<lparr>shape0 = length y0, shape1 = min n (length t_eval), item = (\<lambda>i j. y0 ! i)\<rparr>"

subsection \<open>The sidebar: widget defaults and the reset button\<close>

text \<open>
  The six parameter widgets are keyed by name in Streamlit's session state, a
  dictionary. Dividing Python floats raises \<open>ZeroDivisionError\<close> on a zero divisor.
\<close>

datatype widget_key = Key_\<Lambda> | Key_\<beta> | Key_\<theta> | Key_\<gamma> | Key_\<mu>_S | Key_\<mu>_I

type_synonym session_state = "widget_key \<rightharpoonup> real"

definition py_div :: "real \<Rightarrow> real \<Rightarrow> error + real" where
  "py_div a b = (if b = 0 then Inl ZeroDivisionError else Inr (a / b))"

text \<open>The defaults of the three \<open>number_input\<close> widgets for \<open>S0\<close>, \<open>I0\<close>, \<open>R0\<close>.\<close>

definition initial_condition_defaults :: "real \<times> real \<times> real" where
  "initial_condition_defaults = (6768, 34000, 0)"

text \<open>
  \<^verbatim>\<open>
  if st.sidebar.button("Reset to paper baseline"):
      st.session_state["L"] = 2262
      st.session_state["b"] = 9/(S0*I0)
      st.session_state["th"] = 29
      st.session_state["g"] = 0.0
      st.session_state["mu_S"] = 250/S0
      st.session_state["mu_I"] = 450/I0
  \<close>
  The body of the branch, run when the button is pressed. A division that raises ends
  the script run: the result is then the error, and the entries written before it are
  not part of the model's result.
\<close>

definition reset_to_paper_baseline :: "real \<Rightarrow> real \<Rightarrow> session_state \<Rightarrow> error + session_state" where
  "reset_to_paper_baseline S0 I0 st =
     (case py_div 9 (S0 * I0) of
        Inl e \<Rightarrow> Inl e
      | Inr b \<Rightarrow>
          (case py_div 250 S0 of
             Inl e \<Rightarrow> Inl e
           | Inr mS \<Rightarrow>
               (case py_div 450 I0 of
                  Inl e \<Rightarrow> Inl e
                | Inr mI \<Rightarrow>
                    Inr (st(Key_\<Lambda> \<mapsto> 2262, Key_\<beta> \<mapsto> b, Key_\<theta> \<mapsto> 29, Key_\<gamma> \<mapsto> 0,
                            Key_\<mu>_S \<mapsto> mS, Key_\<mu>_I \<mapsto> mI)))))"

text \<open>
  The default values handed to the six sliders (the \<open>value\<close> argument of each call):
  \<^verbatim>\<open>
  L    = st.sidebar.slider(..., 0, 10000, 2262, key="L")
  b    = st.sidebar.slider(..., 1e-9, 1e-5, float(9/(S0*I0)), ..., key="b")
  th   = st.sidebar.slider(..., 0, 50, 29, key="th")
  g    = st.sidebar.slider(..., 0.0, 0.1, 0.0, ..., key="g")
  mu_S = st.sidebar.slider(..., 0.0, 0.1, float(450/(S0)), ..., key="mu_S")
  mu_I = st.sidebar.slider(..., 0.0, 0.1, float(250/(I0)), ..., key="mu_I")
  \<close>
\<close>

definition slider_defaults :: "real \<Rightarrow> real \<Rightarrow> error + session_state" where
  "slider_defaults S0 I0 =
     (case py_div 9 (S0 * I0) of
        Inl e \<Rightarrow> Inl e
      | Inr b \<Rightarrow>
          (case py_div 450 S0 of
             Inl e \<Rightarrow> Inl e
           | Inr mS \<Rightarrow>
               (case py_div 250 I0 of
                  Inl e \<Rightarrow> Inl e
                | Inr mI \<Rightarrow>
                    Inr [Key_\<Lambda> \<mapsto> 2262, Key_\<beta> \<mapsto> b, Key_\<theta> \<mapsto> 29, Key_\<gamma> \<mapsto> 0,
                         Key_\<mu>_S \<mapsto> mS, Key_\<mu>_I \<mapsto> mI])))"

subsection \<open>What an explicit integrator can produce\<close>

text \<open>
  Every state an explicit Runge-Kutta integrator reports (scipy's default \<open>RK45\<close>
  included, at its steps and through its dense output) is the initial state plus a
  linear combination of values of the vector field: each stage evaluates the field at
  some time and state, and each update adds a multiple of such a value.
\<close>

inductive field_reachable ::
  "(real \<Rightarrow> real list \<Rightarrow> error + real list) \<Rightarrow> real list \<Rightarrow> real list \<Rightarrow> bool"
  for f :: "real \<Rightarrow> real list \<Rightarrow> error + real list" and y0 :: "real list" where
  initial: "field_reachable f y0 y0"
| increment: "field_reachable f y0 y \<Longrightarrow> f t z = Inr k
    \<Longrightarrow> field_reachable f y0 (map2 (\<lambda>a b. a + w * b) y k)"

section \<open>Auxiliary facts\<close>

subsection \<open>The vector field\<close>

lemma jam_model_triple:
  "jam_model t [S, I, R] \<Lambda> \<beta> \<theta> \<gamma> \<mu>_S \<mu>_I =
     Inr [\<Lambda> - \<beta> * S * I - \<mu>_S * S,
          (1 + \<theta>) * \<beta> * S * I - (\<gamma> + \<mu>_I) * I,
          \<gamma> * I + \<mu>_S * S + \<mu>_I * I]"
  by (simp add: jam_model_def)

lemma zero_field_value:
  assumes "jam_model t y 0 0 \<theta> 0 0 0 = Inr k"
  shows "k = [0, 0, 0]"
  using assms by (auto simp add: jam_model_def split: list.splits)

text \<open>
  With all rates zero, adding multiples of values of the field never leaves the
  initial state: rule induction on \<open>field_reachable\<close>.
\<close>

lemma zero_field_reachable:
  assumes "field_reachable (\<lambda>t y. jam_model t y 0 0 \<theta> 0 0 0) [S0, I0, R0] y"
  shows "y = [S0, I0, R0]"
  using assms
proof (induction rule: field_reachable.induct)
  case initial
  show ?case by simp
next
  case (increment y t z k w)
  from increment.hyps(2) have "k = [0, 0, 0]" by (rule zero_field_value)
  with increment.IH show ?case by simp
qed

subsection \<open>Arrays\<close>

lemma upt_2: "[0..<2] = [0, Suc 0]"
  by (simp add: upt_rec)

lemma upt_3: "[0..<3] = [0, Suc 0, Suc (Suc 0)]"
  by (simp add: upt_rec)

lemma length_row: "length (row a i) = shape1 a"
  by (simp add: row_def)

lemma row_nth: "j < shape1 a \<Longrightarrow> row a i ! j = item a i j"
  by (simp add: row_def)

lemma column_3:
  assumes "shape0 a = 3"
  shows "column a j = [item a 0 j, item a 1 j, item a 2 j]"
  using assms by (simp add: column_def upt_3 numeral_2_eq_2)

subsection \<open>The sample times\<close>

lemma length_linspace: "length (linspace start stop num) = num"
  by (simp add: linspace_def Let_def)

text \<open>
  Over the reals the overwritten last element agrees with the formula of the others,
  and so does the branch for a zero step.
\<close>

lemma linspace_nth:
  assumes "1 < num" and "i < num"
  shows "linspace start stop num ! i = start + real i * ((stop - start) / real (num - 1))"
proof (cases "i = num - 1")
  case True
  have "real (num - 1) \<noteq> 0" using assms by simp
  then have "start + real (num - 1) * ((stop - start) / real (num - 1)) = stop"
    by simp
  moreover have "linspace start stop num ! (num - 1) = stop"
    using assms by (simp add: linspace_def Let_def)
  ultimately show ?thesis using True by simp
next
  case False
  have nz: "real (num - 1) \<noteq> 0" using assms by simp
  show ?thesis
  proof (cases "(stop - start) / real (num - 1) = 0")
    case True
    then have "stop - start = 0" using nz by simp
    then show ?thesis using assms False by (simp add: linspace_def Let_def)
  next
    case nonzero: False
    then show ?thesis using assms False by (simp add: linspace_def Let_def algebra_simps)
  qed
qed

lemma linspace_0_T_nth:
  assumes "i < 1000"
  shows "linspace 0 T 1000 ! i = real i * (T / 999)"
  using linspace_nth [of 1000 i 0 T] assms by simp

lemma linspace_strictly_increasing:
  assumes "0 < T"
  shows "sorted_wrt (<) (linspace 0 T 1000)"
proof -
  have "linspace 0 T 1000 ! i < linspace 0 T 1000 ! j" if "i < j" and "j < 1000" for i j
  proof -
    have "real i < real j" using that by simp
    moreover have "0 < T / 999" using assms by simp
    ultimately have "real i * (T / 999) < real j * (T / 999)"
      by (rule mult_strict_right_mono)
    then show ?thesis using that by (simp add: linspace_0_T_nth)
  qed
  then show ?thesis by (simp add: sorted_wrt_iff_nth_less length_linspace)
qed

lemma linspace_evenly_spaced:
  assumes "i < 999"
  shows "linspace 0 T 1000 ! Suc i - linspace 0 T 1000 ! i = T / 999"
  using assms by (simp add: linspace_0_T_nth algebra_simps)

lemma linspace_ends:
  "linspace 0 T 1000 ! 0 = 0" "linspace 0 T 1000 ! 999 = T"
  by (simp_all add: linspace_0_T_nth)

section \<open>The vector field\<close>

text \<open>
  C1. At every time \<open>t\<close>, state \<open>(S, I, R)\<close> and parameter set, the vector field returns
  the triple \<open>dS/dt = \<Lambda> - \<beta> S I - \<mu>_S S\<close>, \<open>dI/dt = (1 + \<theta>) \<beta> S I - (\<gamma> + \<mu>_I) I\<close>,
  \<open>dR/dt = \<gamma> I + \<mu>_S S + \<mu>_I I\<close>, and the result is the same at any other time \<open>t'\<close>.
\<close>

theorem jam_model_derivatives:
  "jam_model t [S, I, R] \<Lambda> \<beta> \<theta> \<gamma> \<mu>_S \<mu>_I =
     Inr [\<Lambda> - \<beta> * S * I - \<mu>_S * S,
          (1 + \<theta>) * \<beta> * S * I - (\<gamma> + \<mu>_I) * I,
          \<gamma> * I + \<mu>_S * S + \<mu>_I * I]
   \<and> jam_model t' y \<Lambda> \<beta> \<theta> \<gamma> \<mu>_S \<mu>_I = jam_model t y \<Lambda> \<beta> \<theta> \<gamma> \<mu>_S \<mu>_I"
  by (simp add: jam_model_def)

section \<open>The derived series\<close>

text \<open>
  C2. Whenever the solver returns an array of three rows, the run returns, its \<open>S\<close> is
  the first row of that array, and the derived series has one element per element of
  \<open>S\<close>, each the floating-point quotient of \<open>(1 + \<theta>) \<beta> S[i]\<close> by \<open>\<gamma> + \<mu>_I\<close>: the real
  quotient whenever the divisor is not zero.
\<close>

theorem run_simulation_Rt_pointwise:
  assumes "solve_ivp (\<lambda>t y. jam_model t y \<Lambda> \<beta> \<theta> \<gamma> \<mu>_S \<mu>_I) (0, T) y0 (linspace 0 T 1000) = Inr a"
    and "shape0 a = 3"
  shows "\<exists>t S I R Rt.
           run_simulation solve_ivp y0 \<Lambda> \<beta> \<theta> \<gamma> \<mu>_S \<mu>_I T = Inr (t, S, I, R, Rt)
           \<and> S = row a 0
           \<and> length Rt = length S
           \<and> (\<forall>i<length S. Rt ! i = np_divide ((1 + \<theta>) * \<beta> * S ! i) (\<gamma> + \<mu>_I))
           \<and> (\<gamma> + \<mu>_I \<noteq> 0 \<longrightarrow>
                (\<forall>i<length S. Rt ! i = Finite ((1 + \<theta>) * \<beta> * S ! i / (\<gamma> + \<mu>_I))))"
  using assms
  by (simp add: run_simulation_def unpack3_def Let_def Rt_elem_def np_divide_def)

theorem run_simulation_Rt_pointwise_witness:
  "\<exists>t S I R Rt.
     run_simulation (stalled_solver 2) [6768, 34000, 0] 2262 (9 / (6768 * 34000)) 29 0
        (450 / 6768) (250 / 34000) 50 = Inr (t, S, I, R, Rt)
     \<and> S = [6768, 6768] \<and> length Rt = 2 \<and> Rt ! 0 = Finite (27 / 25) \<and> Rt ! 1 = Finite (27 / 25)"
proof -
  let ?a = "\<lparr>shape0 = 3, shape1 = 2, item = (\<lambda>i j. [6768, 34000, 0 :: real] ! i)\<rparr>"
  have solved: "stalled_solver 2 (\<lambda>t y. jam_model t y 2262 (9 / (6768 * 34000)) 29 0
      (450 / 6768) (250 / 34000)) (0, 50) [6768, 34000, 0] (linspace 0 50 1000) = Inr ?a"
    by (simp add: stalled_solver_def length_linspace)
  have shape: "shape0 ?a = 3" by simp
  obtain t S I R Rt where
    run: "run_simulation (stalled_solver 2) [6768, 34000, 0] 2262 (9 / (6768 * 34000)) 29 0
        (450 / 6768) (250 / 34000) 50 = Inr (t, S, I, R, Rt)"
    and S: "S = row ?a 0" and len: "length Rt = length S"
    and Rt: "\<forall>i<length S. Rt ! i = np_divide ((1 + 29) * (9 / (6768 * 34000)) * S ! i) (0 + 250 / 34000)"
    using run_simulation_Rt_pointwise [of "stalled_solver 2" 2262 "9 / (6768 * 34000)" 29 0
      "450 / 6768" "250 / 34000" 50 "[6768, 34000, 0]" ?a] solved shape
    by blast
  have S': "S = [6768, 6768]" using S by (simp add: row_def upt_2)
  have "Rt ! 0 = Finite (27 / 25)" "Rt ! 1 = Finite (27 / 25)"
    using Rt S' by (simp_all add: np_divide_def)
  with run S' len show ?thesis by simp
qed

section \<open>The paper baseline\<close>

text \<open>
  C3. With the default initial conditions \<open>S0 = 6768\<close>, \<open>I0 = 34000\<close>, \<open>R0 = 0\<close>, the slider
  defaults are \<open>\<Lambda> = 2262\<close>, \<open>\<beta> = 9 / (S0 I0)\<close>, \<open>\<theta> = 29\<close>, \<open>\<gamma> = 0\<close>, \<open>\<mu>_S = 450 / S0\<close>,
  \<open>\<mu>_I = 250 / I0\<close>. The reset button stores the same \<open>\<Lambda>\<close>, \<open>\<beta>\<close>, \<open>\<theta>\<close>, \<open>\<gamma>\<close>, but
  \<open>\<mu>_S = 250 / S0\<close> and \<open>\<mu>_I = 450 / I0\<close>: the two numerators are exchanged, so the reset
  does not yield \<open>\<mu>_S = 450 / S0\<close> and \<open>\<mu>_I = 250 / I0\<close>.
\<close>

theorem reset_swaps_decay_rates:
  "\<exists>st' d.
     initial_condition_defaults = (6768, 34000, 0)
     \<and> slider_defaults 6768 34000 = Inr d
     \<and> d Key_\<Lambda> = Some 2262 \<and> d Key_\<beta> = Some (9 / (6768 * 34000))
     \<and> d Key_\<theta> = Some 29 \<and> d Key_\<gamma> = Some 0
     \<and> d Key_\<mu>_S = Some (450 / 6768) \<and> d Key_\<mu>_I = Some (250 / 34000)
     \<and> reset_to_paper_baseline 6768 34000 st = Inr st'
     \<and> st' Key_\<Lambda> = Some 2262 \<and> st' Key_\<beta> = Some (9 / (6768 * 34000))
     \<and> st' Key_\<theta> = Some 29 \<and> st' Key_\<gamma> = Some 0
     \<and> st' Key_\<mu>_S = Some (250 / 6768) \<and> st' Key_\<mu>_I = Some (450 / 34000)
     \<and> st' Key_\<mu>_S \<noteq> Some (450 / 6768) \<and> st' Key_\<mu>_I \<noteq> Some (250 / 34000)"
  by (simp add: reset_to_paper_baseline_def slider_defaults_def py_div_def
      initial_condition_defaults_def)

section \<open>The sign of the fragment growth\<close>

text \<open>
  C4. For every parameter set with \<open>\<gamma> + \<mu>_I > 0\<close> and every state \<open>(S, I, R)\<close> with \<open>I > 0\<close>:
  if the reproduction number at \<open>S\<close> is above \<open>1\<close> then the vector field's \<open>dI/dt\<close> at that
  state is positive, and if it is below \<open>1\<close> then \<open>dI/dt\<close> is negative.
\<close>

theorem Rt_sign_positive_I:
  assumes "0 < \<gamma> + \<mu>_I" and "0 < I"
  shows "\<exists>dSdt dIdt dRdt.
           jam_model t [S, I, R] \<Lambda> \<beta> \<theta> \<gamma> \<mu>_S \<mu>_I = Inr [dSdt, dIdt, dRdt]
           \<and> (fval_greater (Rt_elem \<theta> \<beta> \<gamma> \<mu>_I S) 1 \<longrightarrow> 0 < dIdt)
           \<and> (fval_less (Rt_elem \<theta> \<beta> \<gamma> \<mu>_I S) 1 \<longrightarrow> dIdt < 0)"
proof -
  let ?d = "(1 + \<theta>) * \<beta> * S * I - (\<gamma> + \<mu>_I) * I"
  have nz: "\<gamma> + \<mu>_I \<noteq> 0" using assms(1) by simp
  have Rt: "Rt_elem \<theta> \<beta> \<gamma> \<mu>_I S = Finite ((1 + \<theta>) * \<beta> * S / (\<gamma> + \<mu>_I))"
    using nz by (simp add: Rt_elem_def np_divide_def)
  have factor: "?d = ((1 + \<theta>) * \<beta> * S - (\<gamma> + \<mu>_I)) * I"
    by (simp add: algebra_simps)
  have up: "0 < ?d" if "1 < (1 + \<theta>) * \<beta> * S / (\<gamma> + \<mu>_I)"
  proof -
    from that assms(1) have "\<gamma> + \<mu>_I < (1 + \<theta>) * \<beta> * S"
      by (simp add: pos_less_divide_eq)
    then have "0 < ((1 + \<theta>) * \<beta> * S - (\<gamma> + \<mu>_I)) * I"
      using assms(2) by simp
    then show ?thesis by (simp only: factor)
  qed
  have down: "?d < 0" if "(1 + \<theta>) * \<beta> * S / (\<gamma> + \<mu>_I) < 1"
  proof -
    from that assms(1) have "(1 + \<theta>) * \<beta> * S < \<gamma> + \<mu>_I"
      by (simp add: pos_divide_less_eq)
    then have "((1 + \<theta>) * \<beta> * S - (\<gamma> + \<mu>_I)) * I < 0"
      using assms(2) by (simp add: mult_less_0_iff)
    then show ?thesis by (simp only: factor)
  qed
  show ?thesis
    unfolding jam_model_triple Rt using up down by simp
qed

text \<open>
  The baseline parameters at \<open>S = 6768\<close> (reproduction number \<open>27/25\<close>, fragments grow)
  and at \<open>S = 1000\<close> (reproduction number below \<open>1\<close>, fragments shrink).
\<close>

theorem Rt_sign_positive_I_witness:
  "0 < (0::real) + 250 / 34000 \<and> 0 < (34000::real)
   \<and> fval_greater (Rt_elem 29 (9 / (6768 * 34000)) 0 (250 / 34000) 6768) 1
   \<and> (\<exists>dSdt dIdt dRdt.
        jam_model 0 [6768, 34000, 0] 2262 (9 / (6768 * 34000)) 29 0 (450 / 6768) (250 / 34000)
          = Inr [dSdt, dIdt, dRdt] \<and> 0 < dIdt)
   \<and> fval_less (Rt_elem 29 (9 / (6768 * 34000)) 0 (250 / 34000) 1000) 1
   \<and> (\<exists>dSdt dIdt dRdt.
        jam_model 0 [1000, 34000, 0] 2262 (9 / (6768 * 34000)) 29 0 (450 / 6768) (250 / 34000)
          = Inr [dSdt, dIdt, dRdt] \<and> dIdt < 0)"
proof -
  have pos: "0 < (0::real) + 250 / 34000" "0 < (34000::real)" by simp_all
  have above: "fval_greater (Rt_elem 29 (9 / (6768 * 34000)) 0 (250 / 34000) 6768) 1"
    by (simp add: Rt_elem_def np_divide_def)
  have below: "fval_less (Rt_elem 29 (9 / (6768 * 34000)) 0 (250 / 34000) 1000) 1"
    by (simp add: Rt_elem_def np_divide_def)
  from Rt_sign_positive_I [OF pos, of 0 6768 0 2262 "9 / (6768 * 34000)" 29 "450 / 6768"] above
  have grows: "\<exists>dSdt dIdt dRdt.
        jam_model 0 [6768, 34000, 0] 2262 (9 / (6768 * 34000)) 29 0 (450 / 6768) (250 / 34000)
          = Inr [dSdt, dIdt, dRdt] \<and> 0 < dIdt"
    by blast
  from Rt_sign_positive_I [OF pos, of 0 1000 0 2262 "9 / (6768 * 34000)" 29 "450 / 6768"] below
  have shrinks: "\<exists>dSdt dIdt dRdt.
        jam_model 0 [1000, 34000, 0] 2262 (9 / (6768 * 34000)) 29 0 (450 / 6768) (250 / 34000)
          = Inr [dSdt, dIdt, dRdt] \<and> dIdt < 0"
    by blast
  from pos above grows below shrinks show ?thesis by blast
qed

text \<open>
  Without \<open>I > 0\<close> the sign property fails: at the baseline parameters and the state
  \<open>(6768, 0, 0)\<close> the reproduction number is \<open>27/25 > 1\<close>, yet \<open>dI/dt = 0\<close>.
\<close>

theorem Rt_sign_counterexample:
  "0 < (0::real) + 250 / 34000
   \<and> fval_greater (Rt_elem 29 (9 / (6768 * 34000)) 0 (250 / 34000) 6768) 1
   \<and> jam_model 0 [6768, 0, 0] 2262 (9 / (6768 * 34000)) 29 0 (450 / 6768) (250 / 34000)
        = Inr [1812, 0, 450]
   \<and> \<not> (0::real) < [1812, 0, 450] ! 1"
  by (simp add: Rt_elem_def np_divide_def jam_model_def)

section \<open>The lengths of the returned sequences\<close>

text \<open>
  C5. Whenever the solver returns an array of three rows, the run returns \<open>1000\<close> sample
  times, and \<open>S\<close>, \<open>I\<close>, \<open>R\<close> and the derived series all have the same length: the number
  of columns of the array the solver returned.
\<close>

theorem series_lengths_follow_solver:
  assumes "solve_ivp (\<lambda>t y. jam_model t y \<Lambda> \<beta> \<theta> \<gamma> \<mu>_S \<mu>_I) (0, T) y0 (linspace 0 T 1000) = Inr a"
    and "shape0 a = 3"
  shows "map_sum id series_lengths (run_simulation solve_ivp y0 \<Lambda> \<beta> \<theta> \<gamma> \<mu>_S \<mu>_I T)
           = Inr (1000, shape1 a, shape1 a, shape1 a, shape1 a)"
  using assms
  by (simp add: run_simulation_def unpack3_def series_lengths_def length_linspace length_row Let_def)

theorem series_lengths_follow_solver_witness:
  "map_sum id series_lengths
     (run_simulation (stalled_solver 1000) [6768, 34000, 0] 2262 (9 / (6768 * 34000)) 29 0
        (450 / 6768) (250 / 34000) 50)
   = Inr (1000, 1000, 1000, 1000, 1000)"
proof -
  let ?a = "\<lparr>shape0 = 3, shape1 = 1000, item = (\<lambda>i j. [6768, 34000, 0 :: real] ! i)\<rparr>"
  have solved: "stalled_solver 1000 (\<lambda>t y. jam_model t y 2262 (9 / (6768 * 34000)) 29 0
      (450 / 6768) (250 / 34000)) (0, 50) [6768, 34000, 0] (linspace 0 50 1000) = Inr ?a"
    by (simp add: stalled_solver_def length_linspace)
  have shape: "shape0 ?a = 3" by simp
  show ?thesis
    using series_lengths_follow_solver [of "stalled_solver 1000" 2262 "9 / (6768 * 34000)" 29 0
      "450 / 6768" "250 / 34000" 50 "[6768, 34000, 0]" ?a] solved shape
    by simp
qed

text \<open>
  A solver that stops after ten of the requested sample times: the run returns \<open>1000\<close>
  sample times and \<open>S\<close>, \<open>I\<close>, \<open>R\<close>, \<open>Rt\<close> of length \<open>10\<close>, not \<open>1000\<close>.
\<close>

theorem early_stop_lengths_counterexample:
  "map_sum id series_lengths
     (run_simulation (stalled_solver 10) [6768, 34000, 0] 2262 (9 / (6768 * 34000)) 29 0
        (450 / 6768) (250 / 34000) 50)
   = Inr (1000, 10, 10, 10, 10)"
  by (simp add: run_simulation_def stalled_solver_def unpack3_def series_lengths_def
      length_linspace length_row Let_def)

section \<open>The time grid\<close>

text \<open>
  C6. For every \<open>T > 0\<close> and every parameter set, whenever the solver returns an array of
  three rows the run returns a time sequence of exactly \<open>1000\<close> elements that is strictly
  increasing, evenly spaced (consecutive elements differ by \<open>T / 999\<close>), starts at \<open>0\<close>
  and ends at \<open>T\<close>.
\<close>

theorem sample_times_grid:
  assumes "0 < T"
    and "solve_ivp (\<lambda>t y. jam_model t y \<Lambda> \<beta> \<theta> \<gamma> \<mu>_S \<mu>_I) (0, T) y0 (linspace 0 T 1000) = Inr a"
    and "shape0 a = 3"
  shows "\<exists>t S I R Rt.
           run_simulation solve_ivp y0 \<Lambda> \<beta> \<theta> \<gamma> \<mu>_S \<mu>_I T = Inr (t, S, I, R, Rt)
           \<and> length t = 1000
           \<and> sorted_wrt (<) t
           \<and> (\<forall>i<999. t ! Suc i - t ! i = T / 999)
           \<and> hd t = 0 \<and> last t = T"
proof -
  let ?t = "linspace 0 T 1000"
  have run: "run_simulation solve_ivp y0 \<Lambda> \<beta> \<theta> \<gamma> \<mu>_S \<mu>_I T =
           Inr (?t, row a 0, row a 1, row a 2, map (Rt_elem \<theta> \<beta> \<gamma> \<mu>_I) (row a 0))"
    using assms(2,3) by (simp add: run_simulation_def unpack3_def Let_def)
  have len: "length ?t = 1000" by (rule length_linspace)
  have ne: "?t \<noteq> []" using len by auto
  have first: "hd ?t = 0"
    using linspace_ends(1) [of T] ne by (simp add: hd_conv_nth)
  have final: "last ?t = T"
    using linspace_ends(2) [of T] ne len by (simp add: last_conv_nth)
  have even: "\<forall>i<999. ?t ! Suc i - ?t ! i = T / 999"
    using linspace_evenly_spaced by blast
  from run len linspace_strictly_increasing [OF assms(1)] even first final
  show ?thesis by blast
qed

theorem sample_times_grid_witness:
  "\<exists>t S I R Rt.
     run_simulation (stalled_solver 1000) [6768, 34000, 0] 2262 (9 / (6768 * 34000)) 29 0
        (450 / 6768) (250 / 34000) 50 = Inr (t, S, I, R, Rt)
     \<and> length t = 1000 \<and> sorted_wrt (<) t \<and> t ! 1 - t ! 0 = 50 / 999
     \<and> hd t = 0 \<and> last t = 50"
proof -
  let ?a = "\<lparr>shape0 = 3, shape1 = 1000, item = (\<lambda>i j. [6768, 34000, 0 :: real] ! i)\<rparr>"
  have solved: "stalled_solver 1000 (\<lambda>t y. jam_model t y 2262 (9 / (6768 * 34000)) 29 0
      (450 / 6768) (250 / 34000)) (0, 50) [6768, 34000, 0] (linspace 0 50 1000) = Inr ?a"
    by (simp add: stalled_solver_def length_linspace)
  have shape: "shape0 ?a = 3" by simp
  have T: "0 < (50::real)" by simp
  obtain t S I R Rt where
    run: "run_simulation (stalled_solver 1000) [6768, 34000, 0] 2262 (9 / (6768 * 34000)) 29 0
        (450 / 6768) (250 / 34000) 50 = Inr (t, S, I, R, Rt)"
    and props: "length t = 1000" "sorted_wrt (<) t" "hd t = 0" "last t = 50"
    and even: "\<forall>i<999. t ! Suc i - t ! i = 50 / 999"
    using sample_times_grid [of 50 "stalled_solver 1000" 2262 "9 / (6768 * 34000)" 29 0
      "450 / 6768" "250 / 34000" "[6768, 34000, 0]" ?a] T solved shape
    by blast
  from even have "t ! 1 - t ! 0 = 50 / 999" by simp
  with run props show ?thesis by blast
qed

section \<open>No dynamics\<close>

text \<open>
  C7. With \<open>\<Lambda> = \<beta> = \<gamma> = \<mu>_S = \<mu>_I = 0\<close> the vector field is zero at every time and
  state, and for every initial state \<open>(S0, I0, R0)\<close> the simulated trajectory is constant:
  whenever the solver returns an array of three rows whose columns are states an
  explicit integrator can produce from the initial state, the run returns sequences
  with \<open>S[j] = S0\<close> and \<open>I[j] = I0\<close> at every sample.
\<close>

theorem zero_growth_constant_trajectory:
  assumes "solve_ivp (\<lambda>t y. jam_model t y 0 0 \<theta> 0 0 0) (0, T) [S0, I0, R0] (linspace 0 T 1000) = Inr a"
    and "shape0 a = 3"
    and "\<forall>j<shape1 a. field_reachable (\<lambda>t y. jam_model t y 0 0 \<theta> 0 0 0) [S0, I0, R0] (column a j)"
  shows "jam_model t' [s, i, r] 0 0 \<theta> 0 0 0 = Inr [0, 0, 0]
         \<and> (\<exists>t S I R Rt.
               run_simulation solve_ivp [S0, I0, R0] 0 0 \<theta> 0 0 0 T = Inr (t, S, I, R, Rt)
               \<and> length S = shape1 a \<and> length I = shape1 a
               \<and> (\<forall>j<shape1 a. S ! j = S0 \<and> I ! j = I0))"
proof -
  have field: "jam_model t' [s, i, r] 0 0 \<theta> 0 0 0 = Inr [0, 0, 0]"
    by (simp add: jam_model_def)
  have run: "run_simulation solve_ivp [S0, I0, R0] 0 0 \<theta> 0 0 0 T =
           Inr (linspace 0 T 1000, row a 0, row a 1, row a 2, map (Rt_elem \<theta> 0 0 0) (row a 0))"
    using assms(1,2) by (simp add: run_simulation_def unpack3_def Let_def)
  have const: "row a 0 ! j = S0 \<and> row a 1 ! j = I0" if "j < shape1 a" for j
  proof -
    from assms(3) that
    have "field_reachable (\<lambda>t y. jam_model t y 0 0 \<theta> 0 0 0) [S0, I0, R0] (column a j)"
      by blast
    then have "column a j = [S0, I0, R0]" by (rule zero_field_reachable)
    then have "item a 0 j = S0" "item a 1 j = I0"
      by (simp_all add: column_3 [OF assms(2)])
    then show ?thesis using that by (simp add: row_nth)
  qed
  from field run const show ?thesis by (simp add: length_row)
qed

theorem zero_growth_constant_trajectory_witness:
  "jam_model 0 [6768, 34000, 0] 0 0 29 0 0 0 = Inr [0, 0, 0]
   \<and> (\<exists>t S I R Rt.
         run_simulation (stalled_solver 1000) [6768, 34000, 0] 0 0 29 0 0 0 50 = Inr (t, S, I, R, Rt)
         \<and> length S = 1000 \<and> length I = 1000
         \<and> S ! 0 = 6768 \<and> I ! 0 = 34000 \<and> S ! 999 = 6768 \<and> I ! 999 = 34000)"
proof -
  let ?f = "\<lambda>t y. jam_model t y 0 0 29 0 0 0"
  let ?a = "\<lparr>shape0 = 3, shape1 = 1000, item = (\<lambda>i j. [6768, 34000, 0 :: real] ! i)\<rparr>"
  have solved: "stalled_solver 1000 ?f (0, 50) [6768, 34000, 0] (linspace 0 50 1000) = Inr ?a"
    by (simp add: stalled_solver_def length_linspace)
  have shape: "shape0 ?a = 3" by simp
  have "column ?a j = [6768, 34000, 0]" for j
    by (simp add: column_def upt_3)
  then have reach: "\<forall>j<shape1 ?a. field_reachable ?f [6768, 34000, 0] (column ?a j)"
    by (simp add: field_reachable.initial)
  have field: "jam_model 0 [6768, 34000, 0] 0 0 29 0 0 0 = Inr [0, 0, 0]"
    and "\<exists>t S I R Rt.
         run_simulation (stalled_solver 1000) [6768, 34000, 0] 0 0 29 0 0 0 50 = Inr (t, S, I, R, Rt)
         \<and> length S = shape1 ?a \<and> length I = shape1 ?a
         \<and> (\<forall>j<shape1 ?a. S ! j = 6768 \<and> I ! j = 34000)"
    using zero_growth_constant_trajectory [of "stalled_solver 1000" 29 50 6768 34000 0 ?a
        0 6768 34000 0] solved shape reach
    by blast+
  then obtain t S I R Rt where
    run: "run_simulation (stalled_solver 1000) [6768, 34000, 0] 0 0 29 0 0 0 50 = Inr (t, S, I, R, Rt)"
    and len: "length S = 1000" "length I = 1000"
    and const: "\<forall>j<1000. S ! j = 6768 \<and> I ! j = 34000"
    by auto
  from const have "S ! 0 = 6768" "I ! 0 = 34000" "S ! 999 = 6768" "I ! 999 = 34000"
    by simp_all
  with field run len show ?thesis by blast
qed

section \<open>The baseline reproduction number\<close>

text \<open>
  C8. With \<open>\<theta> = 29\<close>, \<open>\<beta> = 9 / (6768 \<cdot> 34000)\<close>, \<open>\<gamma> = 0\<close>, \<open>\<mu>_I = 250 / 34000\<close> and
  \<open>S = 6768\<close>, the derived metric is the quotient of \<open>(1 + 29) \<beta> 6768\<close> by \<open>0 + 250 / 34000\<close>,
  which is exactly \<open>27/25 = 1.08\<close>.
\<close>

theorem baseline_Rt_at_0:
  "Rt_elem 29 (9 / (6768 * 34000)) 0 (250 / 34000) 6768
     = np_divide ((1 + 29) * (9 / (6768 * 34000)) * 6768) (0 + 250 / 34000)
   \<and> Rt_elem 29 (9 / (6768 * 34000)) 0 (250 / 34000) 6768 = Finite (27 / 25)
   \<and> (27 / 25 :: real) = 108 / 100"
  by (simp add: Rt_elem_def np_divide_def)

section \<open>A zero divisor\<close>

text \<open>
  C9. When \<open>\<gamma> + \<mu>_I = 0\<close> nothing guards the division: whenever the solver returns an
  array of three rows the run returns without an error, and every element of the
  derived series is the quotient of \<open>(1 + \<theta>) \<beta> S[i]\<close> by zero, a value that is not finite.
\<close>

theorem Rt_divides_by_zero:
  assumes "\<gamma> + \<mu>_I = 0"
    and "solve_ivp (\<lambda>t y. jam_model t y \<Lambda> \<beta> \<theta> \<gamma> \<mu>_S \<mu>_I) (0, T) y0 (linspace 0 T 1000) = Inr a"
    and "shape0 a = 3"
  shows "\<exists>t S I R Rt.
           run_simulation solve_ivp y0 \<Lambda> \<beta> \<theta> \<gamma> \<mu>_S \<mu>_I T = Inr (t, S, I, R, Rt)
           \<and> length Rt = shape1 a
           \<and> (\<forall>i<length Rt. Rt ! i = np_divide ((1 + \<theta>) * \<beta> * S ! i) 0 \<and> \<not> isfinite (Rt ! i))"
  using assms
  by (simp add: run_simulation_def unpack3_def Let_def Rt_elem_def np_divide_def length_row)

theorem Rt_divides_by_zero_witness:
  "\<exists>t S I R Rt.
     run_simulation (stalled_solver 2) [6768, 34000, 0] 2262 (9 / (6768 * 34000)) 29 0
        (450 / 6768) 0 50 = Inr (t, S, I, R, Rt)
     \<and> length Rt = 2 \<and> Rt ! 0 = PosInf \<and> Rt ! 1 = PosInf"
proof -
  let ?a = "\<lparr>shape0 = 3, shape1 = 2, item = (\<lambda>i j. [6768, 34000, 0 :: real] ! i)\<rparr>"
  have solved: "stalled_solver 2 (\<lambda>t y. jam_model t y 2262 (9 / (6768 * 34000)) 29 0
      (450 / 6768) 0) (0, 50) [6768, 34000, 0] (linspace 0 50 1000) = Inr ?a"
    by (simp add: stalled_solver_def length_linspace)
  have shape: "shape0 ?a = 3" by simp
  have zero: "(0::real) + 0 = 0" by simp
  obtain t S I R Rt where
    run: "run_simulation (stalled_solver 2) [6768, 34000, 0] 2262 (9 / (6768 * 34000)) 29 0
        (450 / 6768) 0 50 = Inr (t, S, I, R, Rt)"
    and len: "length Rt = shape1 ?a"
    and Rt: "\<forall>i<length Rt. Rt ! i = np_divide ((1 + 29) * (9 / (6768 * 34000)) * S ! i) 0
               \<and> \<not> isfinite (Rt ! i)"
    using Rt_divides_by_zero [of 0 0 "stalled_solver 2" 2262 "9 / (6768 * 34000)" 29
      "450 / 6768" 50 "[6768, 34000, 0]" ?a] zero solved shape
    by blast
  have S: "S = row ?a 0"
    using run solved shape by (simp add: run_simulation_def unpack3_def Let_def)
  then have S': "S = [6768, 6768]" by (simp add: row_def upt_2)
  have "Rt ! 0 = PosInf" "Rt ! 1 = PosInf"
    using Rt len S' by (simp_all add: np_divide_def)
  with run len show ?thesis by simp
qed

section \<open>The total flux\<close>

text \<open>
  C10. The three derivatives returned by the vector field add up to
  \<open>\<Lambda> + \<theta> \<beta> S I\<close>: the removal and decay terms leave one compartment and enter
  another, so only launches and the net fragment generation change the total.
\<close>

theorem jam_model_total_flux:
  "\<exists>dSdt dIdt dRdt.
     jam_model t [S, I, R] \<Lambda> \<beta> \<theta> \<gamma> \<mu>_S \<mu>_I = Inr [dSdt, dIdt, dRdt]
     \<and> dSdt + dIdt + dRdt = \<Lambda> + \<theta> * \<beta> * S * I"
proof (intro exI conjI)
  show "jam_model t [S, I, R] \<Lambda> \<beta> \<theta> \<gamma> \<mu>_S \<mu>_I =
     Inr [\<Lambda> - \<beta> * S * I - \<mu>_S * S,
          (1 + \<theta>) * \<beta> * S * I - (\<gamma> + \<mu>_I) * I,
          \<gamma> * I + \<mu>_S * S + \<mu>_I * I]"
    by (rule jam_model_triple)
  show "(\<Lambda> - \<beta> * S * I - \<mu>_S * S) + ((1 + \<theta>) * \<beta> * S * I - (\<gamma> + \<mu>_I) * I)
          + (\<gamma> * I + \<mu>_S * S + \<mu>_I * I) = \<Lambda> + \<theta> * \<beta> * S * I"
    by (simp add: algebra_simps)
qed

end
